theory Spec2Isabelle
  imports Main
begin

text \<open>
  The recipe scraper of \<^verbatim>\<open>scraping.py\<close>: the three discovery levels (categories,
  recipe listings, recipe pages) and the record made of a recipe page. Pages are the
  trees BeautifulSoup gives, exceptions are values (\<open>Inl\<close> of the exception class),
  and a method that returns \<^verbatim>\<open>None\<close> returns \<open>None\<close>. The calls to
  \<^verbatim>\<open>logging\<close> change no value and are left out.
\<close>

section \<open>Text\<close>

text \<open>
  A Python \<^verbatim>\<open>str\<close> is a sequence of Unicode code points, so text is a list of
  code points here: the site's text is Georgian, and the non-breaking space is the single
  code point 160.
\<close>

type_synonym pystr = "nat list"

definition ascii :: "string \<Rightarrow> pystr" where
  "ascii s = map of_char s"

text \<open>
  \<^verbatim>\<open>str.isspace\<close> on one code point: the characters \<^verbatim>\<open>str.split()\<close> and
  \<^verbatim>\<open>str.strip()\<close> treat as whitespace.
\<close>

definition isspace :: "nat \<Rightarrow> bool" where
  "isspace c \<longleftrightarrow>
     (9 \<le> c \<and> c \<le> 13) \<or> (28 \<le> c \<and> c \<le> 32) \<or> c = 133 \<or> c = 160 \<or> c = 5760 \<or>
     (8192 \<le> c \<and> c \<le> 8202) \<or> c = 8232 \<or> c = 8233 \<or> c = 8239 \<or> c = 8287 \<or> c = 12288"

text \<open>\<^verbatim>\<open>text.replace(old, new)\<close> for one-character \<^verbatim>\<open>old\<close> and \<^verbatim>\<open>new\<close>.\<close>

definition replace :: "nat \<Rightarrow> nat \<Rightarrow> pystr \<Rightarrow> pystr" where
  "replace old new text = map (\<lambda>c. if c = old then new else c) text"

text \<open>\<^verbatim>\<open>text.split()\<close>: the maximal runs of non-whitespace, in order.\<close>

function split :: "pystr \<Rightarrow> pystr list" where
  "split text =
     (case dropWhile isspace text of
        [] \<Rightarrow> []
      | c # cs \<Rightarrow> (c # takeWhile (\<lambda>x. \<not> isspace x) cs) # split (dropWhile (\<lambda>x. \<not> isspace x) cs))"
  by pat_completeness auto
termination
proof (relation "measure length")
  show "wf (measure length)" by simp
next
  fix t :: pystr and c cs
  assume a: "dropWhile isspace t = c # cs"
  have "length (dropWhile (\<lambda>x. \<not> isspace x) cs) \<le> length cs"
    by (rule length_dropWhile_le)
  moreover have "length (c # cs) \<le> length t"
    using length_dropWhile_le [of isspace t] a by simp
  ultimately show "(dropWhile (\<lambda>x. \<not> isspace x) cs, t) \<in> measure length"
    by simp
qed

declare split.simps [simp del]

text \<open>\<^verbatim>\<open>sep.join(words)\<close>.\<close>

fun join :: "pystr \<Rightarrow> pystr list \<Rightarrow> pystr" where
  "join sep [] = []"
| "join sep [w] = w"
| "join sep (w # v # ws) = w @ sep @ join sep (v # ws)"

text \<open>\<^verbatim>\<open>text.strip()\<close>.\<close>

definition lstrip :: "pystr \<Rightarrow> pystr" where
  "lstrip text = dropWhile isspace text"

definition rstrip :: "pystr \<Rightarrow> pystr" where
  "rstrip text = rev (dropWhile isspace (rev text))"

definition strip :: "pystr \<Rightarrow> pystr" where
  "strip text = rstrip (lstrip text)"

text \<open>
  \<^verbatim>\<open>ScrapingMixin.clean_text\<close>:
  \<^verbatim>\<open>' '.join(text.replace('\n', ' ').replace('\xa0', ' ').split())\<close>
\<close>

definition clean_text :: "pystr \<Rightarrow> pystr" where
  "clean_text text = join [32] (split (replace 160 32 (replace 10 32 text)))"

subsection \<open>Text cleaning as the specification words it\<close>

text \<open>
  The specification's three steps, each on its own: line breaks and non-breaking spaces
  become spaces, every run of whitespace becomes one space, both ends are trimmed.
\<close>

definition spec_replace_breaks :: "pystr \<Rightarrow> pystr" where
  "spec_replace_breaks text = map (\<lambda>c. if c = 10 \<or> c = 160 then 32 else c) text"

function spec_collapse :: "pystr \<Rightarrow> pystr" where
  "spec_collapse [] = []"
| "spec_collapse (c # cs) =
     (if isspace c then 32 # spec_collapse (dropWhile isspace cs) else c # spec_collapse cs)"
  by pat_completeness auto
termination
  by (relation "measure length") (auto simp: length_dropWhile_le less_Suc_eq_le)

definition spec_trim :: "pystr \<Rightarrow> pystr" where
  "spec_trim text = rev (dropWhile isspace (rev (dropWhile isspace text)))"

definition clean_text_spec :: "pystr \<Rightarrow> pystr" where
  "clean_text_spec text = spec_trim (spec_collapse (spec_replace_breaks text))"

section \<open>Documents\<close>

text \<open>
  The parsed page, as the scraper sees it through BeautifulSoup: a tree of tags and text
  nodes. A tag has a name, the values of its \<^verbatim>\<open>class\<close> attribute, its other
  attributes, and its children in document order.
\<close>

datatype node =
    NavigableString pystr
  | Tag pystr "pystr list" "(pystr \<times> pystr) list" "node list"

datatype error = AttributeError | TypeError | KeyError | IndexError

text \<open>All nodes below a node, in document order.\<close>

fun descendants :: "node \<Rightarrow> node list" where
  "descendants (NavigableString s) = []"
| "descendants (Tag n cs as ks) = concat (map (\<lambda>k. k # descendants k) ks)"

fun matches_name :: "pystr \<Rightarrow> node \<Rightarrow> bool" where
  "matches_name nm (NavigableString s) = False"
| "matches_name nm (Tag n cs as ks) = (n = nm)"

text \<open>
  \<^verbatim>\<open>class_=c\<close>: one of the tag's class values is \<^verbatim>\<open>c\<close>, or the whole attribute
  reads \<^verbatim>\<open>c\<close>.
\<close>

fun matches_class :: "pystr \<Rightarrow> node \<Rightarrow> bool" where
  "matches_class c (NavigableString s) = False"
| "matches_class c (Tag n cs as ks) = (c \<in> set cs \<or> join [32] cs = c)"

text \<open>\<^verbatim>\<open>e.find_all(nm)\<close> and \<^verbatim>\<open>e.find_all(nm, class_=c)\<close>.\<close>

definition find_all :: "node \<Rightarrow> pystr \<Rightarrow> pystr option \<Rightarrow> node list" where
  "find_all e nm cls =
     filter (\<lambda>d. matches_name nm d \<and> (case cls of None \<Rightarrow> True | Some c \<Rightarrow> matches_class c d))
       (descendants e)"

text \<open>\<^verbatim>\<open>e.find(nm)\<close> and \<^verbatim>\<open>e.find(nm, class_=c)\<close>: the first match, or \<^verbatim>\<open>None\<close>.\<close>

definition find_tag :: "node \<Rightarrow> pystr \<Rightarrow> pystr option \<Rightarrow> node option" where
  "find_tag e nm cls = (case find_all e nm cls of [] \<Rightarrow> None | d # ds \<Rightarrow> Some d)"

text \<open>The text nodes below a node, in document order.\<close>

fun strings :: "node \<Rightarrow> pystr list" where
  "strings (NavigableString s) = [s]"
| "strings (Tag n cs as ks) = concat (map strings ks)"

text \<open>\<^verbatim>\<open>e.get_text()\<close>, which is also \<^verbatim>\<open>e.text\<close>.\<close>

definition get_text :: "node \<Rightarrow> pystr" where
  "get_text e = concat (strings e)"

text \<open>\<^verbatim>\<open>e.get_text(strip=True)\<close>: every text node stripped, the empty ones dropped.\<close>

definition get_text_strip :: "node \<Rightarrow> pystr" where
  "get_text_strip e = concat (filter (\<lambda>s. s \<noteq> []) (map strip (strings e)))"

text \<open>\<^verbatim>\<open>e[key]\<close> raises \<^verbatim>\<open>KeyError\<close> when the tag has no such attribute.\<close>

fun getitem :: "node \<Rightarrow> pystr \<Rightarrow> error + pystr" where
  "getitem (NavigableString s) key = Inl TypeError"
| "getitem (Tag n cs as ks) key =
     (case map_of as key of None \<Rightarrow> Inl KeyError | Some v \<Rightarrow> Inr v)"

text \<open>
  A \<^verbatim>\<open>try\<close> block with the one handler \<^verbatim>\<open>except AttributeError\<close> that
  returns \<^verbatim>\<open>handler\<close>: every other exception goes on to the caller.
\<close>

definition except_AttributeError :: "error + 'a \<Rightarrow> 'a \<Rightarrow> error + 'a" where
  "except_AttributeError body handler =
     (case body of
        Inl e \<Rightarrow> (if e = AttributeError then Inr handler else Inl e)
      | Inr v \<Rightarrow> Inr v)"

text \<open>
  \<^verbatim>\<open>await asyncio.gather(*tasks)\<close>: the results in the order of the tasks; an
  exception of a task is raised to the caller. The tasks share no state, so each is
  given by its outcome. When several tasks raise, the one that raises first in time
  decides the exception; here it is the first in task order.
\<close>

fun gather :: "(error + 'a) list \<Rightarrow> error + 'a list" where
  "gather [] = Inr []"
| "gather (t # ts) =
     (case t of
        Inl e \<Rightarrow> Inl e
      | Inr v \<Rightarrow> (case gather ts of Inl e \<Rightarrow> Inl e | Inr vs \<Rightarrow> Inr (v # vs)))"

section \<open>Configuration and data\<close>

text \<open>
  The settings object read from \<^verbatim>\<open>config.json\<close>, with the keys the scraper
  reads; the file itself is not part of the sources, so its values are parameters.
\<close>

record category_classes =
  main_category :: pystr
  category_item :: pystr
  category_text :: pystr

record recipes_classes =
  recipes_container :: pystr
  recipe_link :: pystr

record recipe_page_classes =
  recipe_title :: pystr
  main_image :: pystr
  description :: pystr
  author :: pystr
  author_name :: pystr
  ingredients :: pystr
  cooking_stages :: pystr
  stage_count :: pystr
  portion :: pystr

record config =
  base_url :: pystr
  categories_url :: pystr
  main_category_name :: pystr
  category_classes :: category_classes
  recipes_classes :: recipes_classes
  recipe_page_classes :: recipe_page_classes

text \<open>\<^verbatim>\<open>Category.to_dict()\<close> and \<^verbatim>\<open>SubCategory.to_dict()\<close>.\<close>

record Category =
  name :: pystr
  url :: pystr

record SubCategory =
  sub_category_name :: pystr
  sub_category_url :: pystr
  recipe_urls :: "pystr list"

text \<open>One entry of \<^verbatim>\<open>cooking_stages\<close>: the keys \<^verbatim>\<open>stage\<close> and \<^verbatim>\<open>text\<close>.\<close>

record Stage =
  stage :: pystr
  stage_text :: pystr

text \<open>
  The dictionary \<^verbatim>\<open>extract_recipe_details\<close> returns. \<^verbatim>\<open>cooking_stages\<close>
  holds what \<^verbatim>\<open>get_cooking_stages\<close> returned, which may be \<^verbatim>\<open>None\<close>, and
  \<^verbatim>\<open>main_category_url\<close> the scraper's attribute, \<^verbatim>\<open>None\<close> until it is
  initialised.
\<close>

record RecipeRecord =
  recipe_name :: pystr
  url :: pystr
  main_category_name :: pystr
  main_category_url :: "pystr option"
  sub_category_name :: pystr
  sub_category_url :: pystr
  main_image_url :: pystr
  description :: pystr
  author_name :: pystr
  ingredients :: "pystr list"
  cooking_stages :: "Stage list option"
  portion :: pystr

text \<open>The attributes of a \<^verbatim>\<open>Scraper\<close> object.\<close>

record Scraper =
  config :: config
  base_url :: pystr
  main_category_name :: pystr
  main_category_url :: "pystr option"

definition Scraper_init :: "config \<Rightarrow> Scraper" where
  "Scraper_init cfg =
     \<lparr>Scraper.config = cfg, Scraper.base_url = config.base_url cfg,
      Scraper.main_category_name = config.main_category_name cfg,
      Scraper.main_category_url = None\<rparr>"

text \<open>
  The site: what a GET of each URL gives, parsed, or \<^verbatim>\<open>None\<close> when the request or
  the response status fails. \<^verbatim>\<open>get_soup\<close> catches every exception of the fetch.
  The site does not change during a run: a URL fetched twice gives the same page.
\<close>

type_synonym web = "pystr \<Rightarrow> node option"

definition get_soup :: "web \<Rightarrow> pystr \<Rightarrow> node option" where
  "get_soup session u = session u"

section \<open>The scraper\<close>

subsection \<open>Cooking stages\<close>

text \<open>
  The loop of \<^verbatim>\<open>get_cooking_stages\<close> over the stage containers. \<^verbatim>\<open>find\<close>
  gives \<^verbatim>\<open>None\<close> for a missing sub-element, and \<^verbatim>\<open>.text\<close> of \<^verbatim>\<open>None\<close>
  raises \<^verbatim>\<open>AttributeError\<close>.
\<close>

fun stages_loop :: "config \<Rightarrow> node list \<Rightarrow> Stage list \<Rightarrow> error + Stage list" where
  "stages_loop cfg [] stages = Inr stages"
| "stages_loop cfg (item # items) stages =
     (case find_tag item (ascii ''div'')
             (Some (recipe_page_classes.stage_count (config.recipe_page_classes cfg))) of
        None \<Rightarrow> Inl AttributeError
      | Some d \<Rightarrow>
     (case find_tag item (ascii ''p'') None of
        None \<Rightarrow> Inl AttributeError
      | Some p \<Rightarrow>
          stages_loop cfg items
            (stages @ [\<lparr>stage = clean_text (get_text d), stage_text = clean_text (get_text p)\<rparr>])))"

text \<open>
  \<^verbatim>\<open>get_cooking_stages\<close>: the handler of \<^verbatim>\<open>AttributeError\<close> logs and has no
  \<^verbatim>\<open>return\<close>, so the function then returns \<^verbatim>\<open>None\<close>.
\<close>

definition get_cooking_stages :: "node \<Rightarrow> config \<Rightarrow> error + Stage list option" where
  "get_cooking_stages soup cfg =
     except_AttributeError
       (case stages_loop cfg
               (find_all soup (ascii ''div'')
                  (Some (recipe_page_classes.cooking_stages (config.recipe_page_classes cfg)))) [] of
          Inl e \<Rightarrow> Inl e
        | Inr stages \<Rightarrow> Inr (Some stages))
       None"

subsection \<open>Categories\<close>

text \<open>
  The list comprehension of \<^verbatim>\<open>get_categories\<close>: for each anchor the name is
  evaluated before the URL.
\<close>

fun categories_of :: "Scraper \<Rightarrow> node list \<Rightarrow> error + Category list" where
  "categories_of self [] = Inr []"
| "categories_of self (a # anchors) =
     (case find_tag a (ascii ''div'')
             (Some (category_classes.category_text (config.category_classes (Scraper.config self)))) of
        None \<Rightarrow> Inl AttributeError
      | Some d \<Rightarrow>
     (case getitem a (ascii ''href'') of
        Inl e \<Rightarrow> Inl e
      | Inr href \<Rightarrow>
     (case categories_of self anchors of
        Inl e \<Rightarrow> Inl e
      | Inr categories \<Rightarrow>
          Inr (\<lparr>Category.name = get_text_strip d, Category.url = Scraper.base_url self @ href\<rparr>
               # categories))))"

definition get_categories :: "web \<Rightarrow> Scraper \<Rightarrow> pystr \<Rightarrow> error + Category list" where
  "get_categories session self u =
     (case get_soup session u of
        None \<Rightarrow> Inr []
      | Some soup \<Rightarrow>
          except_AttributeError
            (case find_tag soup (ascii ''div'')
                    (Some (category_classes.main_category (config.category_classes (Scraper.config self)))) of
               None \<Rightarrow> Inl AttributeError
             | Some categories_div \<Rightarrow>
                 categories_of self
                   (find_all categories_div (ascii ''a'')
                      (Some (category_classes.category_item
                               (config.category_classes (Scraper.config self))))))
            [])"

fun get_one_category_url :: "Scraper \<Rightarrow> Category list \<Rightarrow> pystr option" where
  "get_one_category_url self [] = None"
| "get_one_category_url self (category # categories) =
     (if Category.name category = Scraper.main_category_name self then Some (Category.url category)
      else get_one_category_url self categories)"

definition initialize_main_category :: "web \<Rightarrow> Scraper \<Rightarrow> error + Scraper" where
  "initialize_main_category session self =
     (case get_categories session self
             (Scraper.base_url self @ config.categories_url (Scraper.config self)) of
        Inl e \<Rightarrow> Inl e
      | Inr categories \<Rightarrow>
          Inr (self\<lparr>Scraper.main_category_url := get_one_category_url self categories\<rparr>))"

subsection \<open>Recipe URLs of a category\<close>

text \<open>\<^verbatim>\<open>[self.base_url + link['href'] for link in recipe_links]\<close>\<close>

fun recipe_hrefs :: "Scraper \<Rightarrow> node list \<Rightarrow> error + pystr list" where
  "recipe_hrefs self [] = Inr []"
| "recipe_hrefs self (link # links) =
     (case getitem link (ascii ''href'') of
        Inl e \<Rightarrow> Inl e
      | Inr href \<Rightarrow>
     (case recipe_hrefs self links of
        Inl e \<Rightarrow> Inl e
      | Inr us \<Rightarrow> Inr ((Scraper.base_url self @ href) # us)))"

text \<open>
  \<^verbatim>\<open>_extract_recipe_urls\<close> returns a list: one sub-category, or no element at all.
\<close>

definition extract_recipe_urls :: "web \<Rightarrow> Scraper \<Rightarrow> Category \<Rightarrow> error + SubCategory list" where
  "extract_recipe_urls session self category =
     (case get_soup session (Category.url category) of
        None \<Rightarrow> Inr []
      | Some soup \<Rightarrow>
          except_AttributeError
            (case find_tag soup (ascii ''div'')
                    (Some (recipes_classes.recipes_container
                             (config.recipes_classes (Scraper.config self)))) of
               None \<Rightarrow> Inl AttributeError
             | Some container \<Rightarrow>
            (case recipe_hrefs self
                    (find_all container (ascii ''a'')
                       (Some (recipes_classes.recipe_link
                                (config.recipes_classes (Scraper.config self))))) of
               Inl e \<Rightarrow> Inl e
             | Inr us \<Rightarrow>
                 Inr [\<lparr>SubCategory.sub_category_name = Category.name category,
                       SubCategory.sub_category_url = Category.url category,
                       SubCategory.recipe_urls = us\<rparr>]))
            [])"

text \<open>
  \<^verbatim>\<open>get_all_recipes_urls\<close>: the handler of \<^verbatim>\<open>Exception\<close> catches whatever a
  task raises.
\<close>

definition get_all_recipes_urls :: "web \<Rightarrow> Scraper \<Rightarrow> Category list \<Rightarrow> SubCategory list list" where
  "get_all_recipes_urls session self categories =
     (case gather (map (extract_recipe_urls session self) categories) of
        Inl e \<Rightarrow> []
      | Inr recipes \<Rightarrow> recipes)"

subsection \<open>Recipe pages\<close>

text \<open>\<^verbatim>\<open>xs[i]\<close> for a non-negative index: \<^verbatim>\<open>IndexError\<close> out of range.\<close>

definition getindex :: "'a list \<Rightarrow> nat \<Rightarrow> error + 'a" where
  "getindex xs i = (if i < length xs then Inr (xs ! i) else Inl IndexError)"

text \<open>The Georgian word for portion, and the same with a leading \<^verbatim>\<open>1\<close> and a space.\<close>

definition ulupa :: pystr where
  "ulupa = [4323, 4314, 4323, 4324, 4304]"

definition one_ulupa :: pystr where
  "one_ulupa = [49, 32, 4323, 4314, 4323, 4324, 4304]"

text \<open>
  The \<^verbatim>\<open>try\<close> block of \<^verbatim>\<open>extract_recipe_details\<close>, statement by statement.
  A \<^verbatim>\<open>find\<close> that gives \<^verbatim>\<open>None\<close> makes the method call on it raise
  \<^verbatim>\<open>AttributeError\<close>, but the subscript \<^verbatim>\<open>None['src']\<close> raises
  \<^verbatim>\<open>TypeError\<close>.
\<close>

definition recipe_details :: "Scraper \<Rightarrow> node \<Rightarrow> pystr \<Rightarrow> pystr \<Rightarrow> pystr \<Rightarrow> error + RecipeRecord" where
  "recipe_details self soup recipe_url sub_name sub_url =
     (let classes = config.recipe_page_classes (Scraper.config self) in
      case find_tag soup (ascii ''div'') (Some (recipe_page_classes.recipe_title classes)) of
        None \<Rightarrow> Inl AttributeError
      | Some title_div \<Rightarrow>
      case find_tag soup (ascii ''div'') (Some (recipe_page_classes.main_image classes)) of
        None \<Rightarrow> Inl AttributeError
      | Some image_div \<Rightarrow>
      case find_tag image_div (ascii ''img'') None of
        None \<Rightarrow> Inl TypeError
      | Some img \<Rightarrow>
      case getitem img (ascii ''src'') of
        Inl e \<Rightarrow> Inl e
      | Inr image_url \<Rightarrow>
      case find_tag soup (ascii ''div'') (Some (recipe_page_classes.description classes)) of
        None \<Rightarrow> Inl AttributeError
      | Some description_div \<Rightarrow>
      case find_tag soup (ascii ''div'') (Some (recipe_page_classes.author classes)) of
        None \<Rightarrow> Inl AttributeError
      | Some author_div \<Rightarrow>
      case find_tag author_div (recipe_page_classes.author_name classes) None of
        None \<Rightarrow> Inl AttributeError
      | Some author_tag \<Rightarrow>
      case get_cooking_stages soup (Scraper.config self) of
        Inl e \<Rightarrow> Inl e
      | Inr stages \<Rightarrow>
      case getindex (find_all soup (ascii ''div'') (Some (recipe_page_classes.portion classes))) 1 of
        Inl e \<Rightarrow> Inl e
      | Inr portion_div \<Rightarrow>
          Inr \<lparr>recipe_name = clean_text (get_text title_div),
               url = recipe_url,
               RecipeRecord.main_category_name = Scraper.main_category_name self,
               RecipeRecord.main_category_url = Scraper.main_category_url self,
               RecipeRecord.sub_category_name = sub_name,
               RecipeRecord.sub_category_url = sub_url,
               main_image_url = image_url,
               RecipeRecord.description = clean_text (get_text description_div),
               RecipeRecord.author_name = clean_text (get_text author_tag),
               RecipeRecord.ingredients =
                 map (\<lambda>d. clean_text (get_text d))
                   (find_all soup (ascii ''div'') (Some (recipe_page_classes.ingredients classes))),
               RecipeRecord.cooking_stages = stages,
               RecipeRecord.portion =
                 (if strip (get_text portion_div) = ulupa then one_ulupa
                  else strip (get_text portion_div))\<rparr>)"

text \<open>
  \<^verbatim>\<open>extract_recipe_details\<close>: \<^verbatim>\<open>Inr None\<close> is the return of \<^verbatim>\<open>None\<close>,
  \<^verbatim>\<open>Inl e\<close> the exception that leaves the method.
\<close>

definition extract_recipe_details ::
    "web \<Rightarrow> Scraper \<Rightarrow> pystr \<Rightarrow> pystr \<Rightarrow> pystr \<Rightarrow> error + RecipeRecord option" where
  "extract_recipe_details session self recipe_url sub_name sub_url =
     (case get_soup session recipe_url of
        None \<Rightarrow> Inr None
      | Some soup \<Rightarrow>
          except_AttributeError
            (case recipe_details self soup recipe_url sub_name sub_url of
               Inl e \<Rightarrow> Inl e
             | Inr r \<Rightarrow> Inr (Some r))
            None)"

text \<open>The two nested loops of \<^verbatim>\<open>scrape_recipe\<close>, appending one task per recipe URL.\<close>

fun url_loop ::
    "web \<Rightarrow> Scraper \<Rightarrow> SubCategory \<Rightarrow> pystr list \<Rightarrow> (error + RecipeRecord option) list
       \<Rightarrow> (error + RecipeRecord option) list" where
  "url_loop session self sub [] tasks = tasks"
| "url_loop session self sub (recipe_url # us) tasks =
     url_loop session self sub us
       (tasks @ [extract_recipe_details session self recipe_url
                   (SubCategory.sub_category_name sub) (SubCategory.sub_category_url sub)])"

fun sub_category_loop ::
    "web \<Rightarrow> Scraper \<Rightarrow> SubCategory list \<Rightarrow> (error + RecipeRecord option) list
       \<Rightarrow> (error + RecipeRecord option) list" where
  "sub_category_loop session self [] tasks = tasks"
| "sub_category_loop session self (sub # subs) tasks =
     sub_category_loop session self subs
       (url_loop session self sub (SubCategory.recipe_urls sub) tasks)"

definition scrape_recipe :: "web \<Rightarrow> Scraper \<Rightarrow> SubCategory list \<Rightarrow> error + RecipeRecord option list" where
  "scrape_recipe session self data = gather (sub_category_loop session self data [])"

subsection \<open>The run\<close>

text \<open>
  \<^verbatim>\<open>main\<close>, up to the value of \<^verbatim>\<open>results\<close> that is printed and handed to
  \<^verbatim>\<open>save_to_mongodb\<close>: \<^verbatim>\<open>Inr None\<close> when the main category is not found and
  nothing is saved, \<^verbatim>\<open>Inl e\<close> when an exception ends the run. An empty URL is as
  false as \<^verbatim>\<open>None\<close> in \<^verbatim>\<open>if not scraper.main_category_url\<close>.
\<close>

definition main :: "web \<Rightarrow> config \<Rightarrow> error + RecipeRecord option list option" where
  "main session configuration =
     (case initialize_main_category session (Scraper_init configuration) of
        Inl e \<Rightarrow> Inl e
      | Inr scraper \<Rightarrow>
     (case Scraper.main_category_url scraper of
        None \<Rightarrow> Inr None
      | Some main_url \<Rightarrow>
          if main_url = [] then Inr None
          else
            (case get_categories session scraper main_url of
               Inl e \<Rightarrow> Inl e
             | Inr sub_categories \<Rightarrow>
            (case scrape_recipe session scraper
                    (concat (get_all_recipes_urls session scraper sub_categories)) of
               Inl e \<Rightarrow> Inl e
             | Inr results \<Rightarrow> Inr (Some results)))))"

subsection \<open>The flattened pairs of the specification\<close>

text \<open>
  The specification's flattened sequence of (sub-category, recipe URL) pairs: the
  sub-categories in order, and the URLs of each in order.
\<close>

definition flattened_pairs :: "SubCategory list \<Rightarrow> (SubCategory \<times> pystr) list" where
  "flattened_pairs data = concat (map (\<lambda>sub. map (Pair sub) (SubCategory.recipe_urls sub)) data)"

text \<open>The extraction task the scraper submits for one pair.\<close>

definition task_of :: "web \<Rightarrow> Scraper \<Rightarrow> SubCategory \<times> pystr \<Rightarrow> error + RecipeRecord option" where
  "task_of session self pair =
     extract_recipe_details session self (snd pair)
       (SubCategory.sub_category_name (fst pair)) (SubCategory.sub_category_url (fst pair))"

subsection \<open>The required structure of a recipe page\<close>

text \<open>
  The elements \<^verbatim>\<open>extract_recipe_details\<close> reads unconditionally: the title, image,
  description and author containers, the image tag with its source, the author-name tag,
  and a second portion element.
\<close>

definition has_attr :: "node \<Rightarrow> pystr \<Rightarrow> bool" where
  "has_attr e key = (case getitem e key of Inl err \<Rightarrow> False | Inr v \<Rightarrow> True)"

definition required_present :: "Scraper \<Rightarrow> node \<Rightarrow> bool" where
  "required_present self soup =
     (let classes = config.recipe_page_classes (Scraper.config self) in
      find_tag soup (ascii ''div'') (Some (recipe_page_classes.recipe_title classes)) \<noteq> None \<and>
      (case find_tag soup (ascii ''div'') (Some (recipe_page_classes.main_image classes)) of
         None \<Rightarrow> False
       | Some image_div \<Rightarrow>
           (case find_tag image_div (ascii ''img'') None of
              None \<Rightarrow> False
            | Some img \<Rightarrow> has_attr img (ascii ''src''))) \<and>
      find_tag soup (ascii ''div'') (Some (recipe_page_classes.description classes)) \<noteq> None \<and>
      (case find_tag soup (ascii ''div'') (Some (recipe_page_classes.author classes)) of
         None \<Rightarrow> False
       | Some author_div \<Rightarrow>
           find_tag author_div (recipe_page_classes.author_name classes) None \<noteq> None) \<and>
      2 \<le> length (find_all soup (ascii ''div'') (Some (recipe_page_classes.portion classes))))"

subsection \<open>Valid category anchors\<close>

text \<open>
  The specification's valid category anchor: an anchor with the text container for its
  display name and with an \<^verbatim>\<open>href\<close>.
\<close>

definition valid_category_anchor :: "Scraper \<Rightarrow> node \<Rightarrow> bool" where
  "valid_category_anchor self a =
     (find_tag a (ascii ''div'')
        (Some (category_classes.category_text (config.category_classes (Scraper.config self)))) \<noteq> None
      \<and> has_attr a (ascii ''href''))"

section \<open>A small site\<close>

text \<open>
  A site of seven pages on which the operations are run: the category index, the page of
  the main category, one listing with three recipes, and recipe pages with and without
  the structure the scraper expects.
\<close>

definition text_node :: "string \<Rightarrow> node" where
  "text_node s = NavigableString (ascii s)"

definition el :: "string \<Rightarrow> string \<Rightarrow> node list \<Rightarrow> node" where
  "el nm cls kids = Tag (ascii nm) [ascii cls] [] kids"

definition link :: "string \<Rightarrow> string \<Rightarrow> node list \<Rightarrow> node" where
  "link cls href kids = Tag (ascii ''a'') [ascii cls] [(ascii ''href'', ascii href)] kids"

definition document :: "node list \<Rightarrow> node" where
  "document kids = Tag (ascii ''[document]'') [] [] kids"

definition config_ex :: config where
  "config_ex =
     \<lparr>config.base_url = ascii ''k.ge'', categories_url = ascii ''/c'',
      config.main_category_name = ascii ''Main'',
      category_classes =
        \<lparr>main_category = ascii ''cats'', category_item = ascii ''item'', category_text = ascii ''t''\<rparr>,
      recipes_classes = \<lparr>recipes_container = ascii ''box'', recipe_link = ascii ''r''\<rparr>,
      recipe_page_classes =
        \<lparr>recipe_title = ascii ''ti'', main_image = ascii ''im'',
         recipe_page_classes.description = ascii ''de'', author = ascii ''au'',
         recipe_page_classes.author_name = ascii ''span'',
         recipe_page_classes.ingredients = ascii ''in'',
         recipe_page_classes.cooking_stages = ascii ''st'', stage_count = ascii ''n'',
         recipe_page_classes.portion = ascii ''po''\<rparr>\<rparr>"

definition scraper_ex :: Scraper where
  "scraper_ex = (Scraper_init config_ex)\<lparr>Scraper.main_category_url := Some (ascii ''k.ge/m'')\<rparr>"

definition title_ex :: node where
  "title_ex = el ''div'' ''ti'' [text_node ''Soup'']"

definition image_ex :: node where
  "image_ex = el ''div'' ''im'' [Tag (ascii ''img'') [] [(ascii ''src'', ascii ''/s.png'')] []]"

definition description_ex :: node where
  "description_ex = el ''div'' ''de'' [NavigableString [72, 111, 116, 10, 160, 32, 115, 111, 117, 112]]"

definition author_ex :: node where
  "author_ex = el ''div'' ''au'' [el ''span'' ''x'' [text_node ''Nino'']]"

definition ingredient_ex :: node where
  "ingredient_ex = el ''div'' ''in'' [text_node ''salt'']"

definition stage_ex :: node where
  "stage_ex = el ''div'' ''st'' [el ''div'' ''n'' [text_node ''1''], el ''p'' ''x'' [text_node ''Boil'']]"

definition portions_ex :: "node list" where
  "portions_ex =
     [el ''div'' ''po'' [text_node ''x''], el ''div'' ''po'' [NavigableString ([32] @ ulupa @ [10])]]"

text \<open>A page with everything, with an ingredient and a complete stage.\<close>

definition page_full :: node where
  "page_full =
     document ([title_ex, image_ex, description_ex, author_ex, ingredient_ex, stage_ex] @ portions_ex)"

text \<open>The same page without its title container.\<close>

definition page_no_title :: node where
  "page_no_title =
     document ([image_ex, description_ex, author_ex, ingredient_ex, stage_ex] @ portions_ex)"

text \<open>No ingredient elements, and the second portion element reads \<^verbatim>\<open>2\<close> and the word.\<close>

definition page_plain :: node where
  "page_plain =
     document [title_ex, image_ex, description_ex, author_ex, stage_ex,
               el ''div'' ''po'' [text_node ''x''], el ''div'' ''po'' [NavigableString ([50, 32] @ ulupa)]]"

text \<open>A stage container without its \<^verbatim>\<open>p\<close> element.\<close>

definition page_stage_without_p :: node where
  "page_stage_without_p =
     document ([title_ex, image_ex, description_ex, author_ex, ingredient_ex,
                el ''div'' ''st'' [el ''div'' ''n'' [text_node ''1'']]] @ portions_ex)"

text \<open>Only one portion element.\<close>

definition page_one_portion :: node where
  "page_one_portion =
     document [title_ex, image_ex, description_ex, author_ex, ingredient_ex, stage_ex,
               el ''div'' ''po'' [text_node ''x'']]"

text \<open>An image container without an \<^verbatim>\<open>img\<close> tag.\<close>

definition page_no_img :: node where
  "page_no_img =
     document ([title_ex, el ''div'' ''im'' [], description_ex, author_ex, ingredient_ex, stage_ex]
               @ portions_ex)"

definition page_index :: node where
  "page_index = document [el ''div'' ''cats'' [link ''item'' ''/m'' [el ''div'' ''t'' [text_node ''Main'']]]]"

definition page_main :: node where
  "page_main = document [el ''div'' ''cats'' [link ''item'' ''/s'' [el ''div'' ''t'' [text_node '' Soups '']]]]"

definition page_listing :: node where
  "page_listing =
     document [el ''div'' ''box'' [link ''r'' ''/1'' [], link ''r'' ''/2'' [], link ''r'' ''/3'' []]]"

definition site_ex :: web where
  "site_ex u =
     (if u = ascii ''k.ge/c'' then Some page_index
      else if u = ascii ''k.ge/m'' then Some page_main
      else if u = ascii ''k.ge/s'' then Some page_listing
      else if u = ascii ''k.ge/1'' then Some page_full
      else if u = ascii ''k.ge/2'' then Some page_no_title
      else if u = ascii ''k.ge/3'' then Some page_plain
      else if u = ascii ''k.ge/4'' then Some page_stage_without_p
      else if u = ascii ''k.ge/5'' then Some page_one_portion
      else if u = ascii ''k.ge/6'' then Some page_no_img
      else None)"

definition soups_ex :: SubCategory where
  "soups_ex =
     \<lparr>SubCategory.sub_category_name = ascii ''Soups'',
      SubCategory.sub_category_url = ascii ''k.ge/s'',
      SubCategory.recipe_urls = [ascii ''k.ge/1'', ascii ''k.ge/2'', ascii ''k.ge/3'']\<rparr>"

text \<open>What the scraper makes of the two well-formed recipe pages of the listing.\<close>

definition record_ex :: "pystr \<Rightarrow> pystr list \<Rightarrow> Stage list option \<Rightarrow> pystr \<Rightarrow> RecipeRecord" where
  "record_ex u ingr stages por =
     \<lparr>recipe_name = ascii ''Soup'', url = u,
      RecipeRecord.main_category_name = ascii ''Main'',
      RecipeRecord.main_category_url = Some (ascii ''k.ge/m''),
      RecipeRecord.sub_category_name = ascii ''Soups'',
      RecipeRecord.sub_category_url = ascii ''k.ge/s'',
      main_image_url = ascii ''/s.png'',
      RecipeRecord.description = ascii ''Hot soup'',
      RecipeRecord.author_name = ascii ''Nino'',
      RecipeRecord.ingredients = ingr,
      RecipeRecord.cooking_stages = stages,
      RecipeRecord.portion = por\<rparr>"

definition stages_ex :: "Stage list" where
  "stages_ex = [\<lparr>stage = ascii ''1'', stage_text = ascii ''Boil''\<rparr>]"

text \<open>Categories with the configured name twice, and a category whose listing cannot be fetched.\<close>

definition categories_ex :: "Category list" where
  "categories_ex =
     [\<lparr>Category.name = ascii ''Other'', Category.url = ascii ''k.ge/o''\<rparr>,
      \<lparr>Category.name = ascii ''Main'', Category.url = ascii ''k.ge/m''\<rparr>,
      \<lparr>Category.name = ascii ''Main'', Category.url = ascii ''k.ge/x''\<rparr>]"

definition category_down :: Category where
  "category_down = \<lparr>Category.name = ascii ''Stews'', Category.url = ascii ''k.ge/down''\<rparr>"

text \<open>What \<^verbatim>\<open>main\<close> hands to persistence on this site.\<close>

definition results_ex :: "RecipeRecord option list" where
  "results_ex =
     [Some (record_ex (ascii ''k.ge/1'') [ascii ''salt''] (Some stages_ex) one_ulupa),
      None,
      Some (record_ex (ascii ''k.ge/3'') [] (Some stages_ex) ([50, 32] @ ulupa))]"

section \<open>Text cleaning\<close>

lemma isspace_32: "isspace 32"
  by (simp add: isspace_def)

lemma replace_twice: "replace 160 32 (replace 10 32 t) = spec_replace_breaks t"
  by (simp add: replace_def spec_replace_breaks_def)

lemma split_Nil: "dropWhile isspace t = [] \<Longrightarrow> split t = []"
  by (subst split.simps) (simp only: list.case)

lemma split_Cons:
  "dropWhile isspace t = c # cs \<Longrightarrow>
   split t = (c # takeWhile (\<lambda>x. \<not> isspace x) cs) # split (dropWhile (\<lambda>x. \<not> isspace x) cs)"
  by (subst split.simps) (simp only: list.case)

lemma collapse_all_space:
  "\<forall>x\<in>set t. isspace x \<Longrightarrow> spec_collapse t = (if t = [] then [] else [32])"
  by (cases t) (simp_all add: dropWhile_eq_Nil_conv [THEN iffD2])

lemma collapse_word:
  "\<forall>x\<in>set w. \<not> isspace x \<Longrightarrow> spec_collapse (w @ r) = w @ spec_collapse r"
  by (induction w) simp_all

lemma dropWhile_head: "dropWhile P xs = y # ys \<Longrightarrow> \<not> P y"
  using hd_dropWhile [of P xs] by auto

lemma collapse_nonspace_head:
  "r = [] \<or> \<not> isspace (hd r) \<Longrightarrow> dropWhile isspace (spec_collapse r) = spec_collapse r"
  by (cases r) auto

text \<open>Trimming on the left commutes with collapsing.\<close>

lemma collapse_lstrip:
  "dropWhile isspace (spec_collapse t) = spec_collapse (dropWhile isspace t)"
proof (cases t)
  case Nil
  then show ?thesis by simp
next
  case (Cons c cs)
  show ?thesis
  proof (cases "isspace c")
    case True
    have "dropWhile isspace cs = [] \<or> \<not> isspace (hd (dropWhile isspace cs))"
      using hd_dropWhile [of isspace cs] by blast
    then have "dropWhile isspace (spec_collapse (dropWhile isspace cs)) =
        spec_collapse (dropWhile isspace cs)"
      by (rule collapse_nonspace_head)
    then show ?thesis using Cons True isspace_32 by simp
  next
    case False
    then show ?thesis using Cons by simp
  qed
qed

lemma rstrip_append:
  assumes "\<exists>x\<in>set b. \<not> isspace x"
  shows "rev (dropWhile isspace (rev (a @ b))) = a @ rev (dropWhile isspace (rev b))"
proof -
  from assms obtain x where "x \<in> set (rev b)" "\<not> isspace x" by auto
  then have "dropWhile isspace (rev b @ rev a) = dropWhile isspace (rev b) @ rev a"
    by (rule dropWhile_append1)
  then show ?thesis by simp
qed

lemma dropWhile_none: "\<forall>x\<in>set xs. \<not> P x \<Longrightarrow> dropWhile P xs = xs"
  by (cases xs) auto

lemma rstrip_word:
  assumes "\<forall>x\<in>set s. isspace x" and "\<forall>x\<in>set w. \<not> isspace x"
  shows "rev (dropWhile isspace (rev (w @ s))) = w"
proof -
  have "dropWhile isspace (rev s @ rev w) = dropWhile isspace (rev w)"
    using assms(1) by (intro dropWhile_append2) simp
  also have "\<dots> = rev w"
    using assms(2) by (intro dropWhile_none) simp
  finally show ?thesis by simp
qed

text \<open>
  Joining the words of a text with single spaces gives the collapsed text without its
  leading and trailing whitespace: by induction along the recursion of \<open>split\<close>,
  one word at a time.
\<close>

lemma join_split_collapse:
  "join [32] (split t) = rev (dropWhile isspace (rev (spec_collapse (dropWhile isspace t))))"
proof (induction t rule: split.induct)
  case (1 t)
  show ?case
  proof (cases "dropWhile isspace t")
    case Nil
    have "split t = []" using Nil by (rule split_Nil)
    moreover have "spec_collapse (dropWhile isspace t) = []"
      using Nil by (simp only: spec_collapse.simps)
    ultimately show ?thesis by simp
  next
    case (Cons c cs)
    define w where "w = c # takeWhile (\<lambda>x. \<not> isspace x) cs"
    define r where "r = dropWhile (\<lambda>x. \<not> isspace x) cs"
    have c: "\<not> isspace c" using Cons by (rule dropWhile_head)
    have w: "\<forall>x\<in>set w. \<not> isspace x" using c by (auto simp: w_def dest: set_takeWhileD)
    have wr: "c # cs = w @ r" by (simp add: w_def r_def)
    have IH: "join [32] (split r) =
        rev (dropWhile isspace (rev (spec_collapse (dropWhile isspace r))))"
      unfolding r_def using Cons by (rule "1.IH")
    have sp: "split t = w # split r"
      unfolding w_def r_def using Cons by (rule split_Cons)
    have "spec_collapse (c # cs) = w @ spec_collapse r"
      unfolding wr using w by (rule collapse_word)
    then have col: "spec_collapse (dropWhile isspace t) = w @ spec_collapse r"
      by (simp only: Cons)
    show ?thesis
    proof (cases "dropWhile isspace r")
      case Nil
      then have "\<forall>x\<in>set r. isspace x" by (simp add: dropWhile_eq_Nil_conv)
      then have "\<forall>x\<in>set (spec_collapse r). isspace x"
        by (simp add: collapse_all_space isspace_32)
      then have "rev (dropWhile isspace (rev (w @ spec_collapse r))) = w"
        using w by (rule rstrip_word)
      moreover have "split r = []" using Nil by (rule split_Nil)
      ultimately show ?thesis by (simp only: sp col join.simps)
    next
      case (Cons d ds)
      have d: "\<not> isspace d" using Cons by (rule dropWhile_head)
      have spr: "split r =
          (d # takeWhile (\<lambda>x. \<not> isspace x) ds) # split (dropWhile (\<lambda>x. \<not> isspace x) ds)"
        using Cons by (rule split_Cons)
      have rne: "r \<noteq> []" using Cons by auto
      have "r = [] \<or> \<not> \<not> isspace (hd r)"
        unfolding r_def using hd_dropWhile [of "\<lambda>x. \<not> isspace x" cs] by blast
      then have hr: "isspace (hd r)" using rne by simp
      obtain r' where r: "r = hd r # r'" using rne by (cases r) auto
      have "spec_collapse (hd r # r') = 32 # spec_collapse (dropWhile isspace r')"
        using hr by simp
      moreover have "dropWhile isspace (hd r # r') = dropWhile isspace r'" using hr by simp
      ultimately have cr: "spec_collapse r = 32 # spec_collapse (dropWhile isspace r)"
        using r by metis
      have "spec_collapse (d # ds) = d # spec_collapse ds"
        using d by simp
      then have ex: "\<exists>x\<in>set (spec_collapse (dropWhile isspace r)). \<not> isspace x"
        using d Cons by simp
      have "rev (dropWhile isspace (rev ((w @ [32]) @ spec_collapse (dropWhile isspace r)))) =
          (w @ [32]) @ rev (dropWhile isspace (rev (spec_collapse (dropWhile isspace r))))"
        using ex by (rule rstrip_append)
      then have "rev (dropWhile isspace (rev (w @ spec_collapse r))) =
          w @ [32] @ join [32] (split r)"
        by (simp add: cr IH)
      moreover have "join [32] (split t) = w @ [32] @ join [32] (split r)"
        by (simp add: sp spr)
      ultimately show ?thesis by (simp only: col)
    qed
  qed
qed

text \<open>Rules that run \<open>split\<close> on a text given character by character.\<close>

lemma split_empty: "split [] = []"
  by (subst split.simps) simp

lemma split_space: "isspace c \<Longrightarrow> split (c # cs) = split cs"
  by (subst split.simps, subst (2) split.simps) simp

lemma split_word:
  "\<not> isspace c \<Longrightarrow>
   split (c # cs) = (c # takeWhile (\<lambda>x. \<not> isspace x) cs) # split (dropWhile (\<lambda>x. \<not> isspace x) cs)"
  by (subst split.simps) simp

lemmas text_eval = split_empty split_space split_word clean_text_def replace_def isspace_def
  ascii_def strip_def lstrip_def rstrip_def ulupa_def one_ulupa_def

text \<open>
  C7. For every text, \<open>clean_text\<close> is the text with line breaks and non-breaking
  spaces replaced by spaces, every run of whitespace collapsed to one space, and both ends
  trimmed; and the text \<^verbatim>\<open>Step\n\xa0 one   two\<close> is cleaned to \<^verbatim>\<open>Step one two\<close>.
\<close>

theorem clean_text_normalizes:
  "clean_text t = clean_text_spec t \<and>
   clean_text (ascii ''Step'' @ [10, 160] @ ascii '' one   two'') = ascii ''Step one two''"
proof
  show "clean_text t = clean_text_spec t"
    by (simp add: clean_text_def clean_text_spec_def spec_trim_def replace_twice
        join_split_collapse collapse_lstrip)
  show "clean_text (ascii ''Step'' @ [10, 160] @ ascii '' one   two'') = ascii ''Step one two''"
    by (simp add: text_eval)
qed


section \<open>Category resolution\<close>

lemma get_one_category_url_find:
  "get_one_category_url self categories =
     map_option Category.url
       (List.find (\<lambda>c. Category.name c = Scraper.main_category_name self) categories)"
  by (induction categories) simp_all

lemmas soup_eval = find_tag_def find_all_def get_text_def get_text_strip_def getindex_def
  except_AttributeError_def get_soup_def has_attr_def

lemmas site_eval = text_node_def el_def link_def document_def config_ex_def scraper_ex_def
  Scraper_init_def title_ex_def image_ex_def description_ex_def author_ex_def ingredient_ex_def
  stage_ex_def portions_ex_def site_ex_def record_ex_def stages_ex_def soups_ex_def
  categories_ex_def category_down_def results_ex_def

text \<open>
  C6. For every sequence of categories, \<open>get_one_category_url\<close> returns \<open>None\<close>
  when no category has the configured main-category name, and otherwise the URL of the
  first category in the sequence that has it.
\<close>

theorem get_one_category_url_first_match:
  "(Scraper.main_category_name self \<notin> Category.name ` set categories \<longrightarrow>
      get_one_category_url self categories = None) \<and>
   (Scraper.main_category_name self \<in> Category.name ` set categories \<longrightarrow>
      (\<exists>i<length categories.
         Category.name (categories ! i) = Scraper.main_category_name self \<and>
         (\<forall>j<i. Category.name (categories ! j) \<noteq> Scraper.main_category_name self) \<and>
         get_one_category_url self categories = Some (Category.url (categories ! i))))"
proof (intro conjI impI)
  assume "Scraper.main_category_name self \<notin> Category.name ` set categories"
  then have "List.find (\<lambda>c. Category.name c = Scraper.main_category_name self) categories = None"
    by (auto simp: find_None_iff image_iff)
  then show "get_one_category_url self categories = None"
    by (simp add: get_one_category_url_find)
next
  assume "Scraper.main_category_name self \<in> Category.name ` set categories"
  then have "List.find (\<lambda>c. Category.name c = Scraper.main_category_name self) categories \<noteq> None"
    by (auto simp: find_None_iff)
  then obtain c where
    "List.find (\<lambda>c. Category.name c = Scraper.main_category_name self) categories = Some c"
    by auto
  then show "\<exists>i<length categories.
         Category.name (categories ! i) = Scraper.main_category_name self \<and>
         (\<forall>j<i. Category.name (categories ! j) \<noteq> Scraper.main_category_name self) \<and>
         get_one_category_url self categories = Some (Category.url (categories ! i))"
    by (auto simp: get_one_category_url_find find_Some_iff)
qed

theorem get_one_category_url_first_match_witness:
  "Scraper.main_category_name scraper_ex \<in> Category.name ` set categories_ex \<and>
   get_one_category_url scraper_ex categories_ex = Some (ascii ''k.ge/m'') \<and>
   Scraper.main_category_name scraper_ex \<notin> Category.name ` set [category_down] \<and>
   get_one_category_url scraper_ex [category_down] = None"
  using get_one_category_url_first_match [of scraper_ex categories_ex]
    get_one_category_url_first_match [of scraper_ex "[category_down]"]
  by (simp add: site_eval ascii_def)

section \<open>Recipe URLs of a category whose listing cannot be fetched\<close>

text \<open>
  C3, as the code has it. For every category whose listing page cannot be fetched,
  \<open>extract_recipe_urls\<close> returns the empty list, with no sub-category in it, and
  raises nothing.
\<close>

theorem extract_recipe_urls_fetch_failure:
  "session (Category.url category) = None \<Longrightarrow>
   extract_recipe_urls session self category = Inr []"
  by (simp add: extract_recipe_urls_def get_soup_def)

theorem extract_recipe_urls_fetch_failure_witness:
  "site_ex (Category.url category_down) = None \<and>
   extract_recipe_urls site_ex scraper_ex category_down = Inr []"
proof -
  have h: "site_ex (Category.url category_down) = None"
    by (simp add: site_eval ascii_def)
  show ?thesis
    using h extract_recipe_urls_fetch_failure
      [where session = site_ex and category = category_down and self = scraper_ex, OF h]
    by simp
qed

text \<open>
  The listing of the category \<^verbatim>\<open>Stews\<close> cannot be fetched, and the result is not
  the sub-category of that name and URL with no recipe URLs.
\<close>

theorem collect_for_category_counterexample:
  "site_ex (Category.url category_down) = None \<and>
   extract_recipe_urls site_ex scraper_ex category_down \<noteq>
     Inr [\<lparr>SubCategory.sub_category_name = Category.name category_down,
           SubCategory.sub_category_url = Category.url category_down,
           SubCategory.recipe_urls = []\<rparr>]"
  by (simp add: extract_recipe_urls_def get_soup_def site_eval ascii_def)


section \<open>The fan-out over recipe pages\<close>

text \<open>\<open>gather\<close> returns exactly when every task returns, with the results in task order.\<close>

lemma gather_Inr_iff: "gather ts = Inr vs \<longleftrightarrow> ts = map Inr vs"
proof (induction ts arbitrary: vs)
  case Nil
  then show ?case by auto
next
  case (Cons t ts)
  show ?case
  proof (cases t)
    case (Inl e)
    then show ?thesis by (cases vs) auto
  next
    case (Inr v)
    show ?thesis
    proof (cases "gather ts")
      case (Inl e)
      then have "\<And>ws. ts \<noteq> map Inr ws" using Cons.IH by auto
      then show ?thesis using Inl Inr by (cases vs) auto
    next
      case inner: (Inr ws)
      then have "ts = map Inr ws" using Cons.IH by simp
      then show ?thesis using inner Inr by (cases vs) (auto simp: inj_map_eq_map)
    qed
  qed
qed

text \<open>The two loops append the tasks of the flattened pairs, in order.\<close>

lemma url_loop_append:
  "url_loop session self sub us tasks = tasks @ map (\<lambda>u. task_of session self (sub, u)) us"
  by (induction us arbitrary: tasks) (simp_all add: task_of_def)

lemma sub_category_loop_append:
  "sub_category_loop session self data tasks =
     tasks @ map (task_of session self) (flattened_pairs data)"
  by (induction data arbitrary: tasks) (simp_all add: flattened_pairs_def url_loop_append comp_def)

lemma scrape_recipe_iff:
  "scrape_recipe session self data = Inr results \<longleftrightarrow>
   map (task_of session self) (flattened_pairs data) = map Inr results"
  by (simp add: scrape_recipe_def gather_Inr_iff sub_category_loop_append)

lemma scrape_recipe_counts:
  assumes "scrape_recipe session self data = Inr results"
  shows "length results = length (flattened_pairs data) \<and>
     length (filter (\<lambda>r. r = None) results) =
       length (filter (\<lambda>p. task_of session self p = Inr None) (flattened_pairs data))"
proof -
  have m: "map (task_of session self) (flattened_pairs data) = map Inr results"
    using assms by (simp add: scrape_recipe_iff)
  then have "length (flattened_pairs data) = length results"
    by (metis length_map)
  moreover have
    "length (filter (\<lambda>t. t = Inr None) (map (task_of session self) (flattened_pairs data))) =
     length (filter (\<lambda>t. t = Inr None) (map Inr results :: (error + RecipeRecord option) list))"
    using m by simp
  then have "length (filter (\<lambda>p. task_of session self p = Inr None) (flattened_pairs data)) =
     length (filter (\<lambda>r. r = None) results)"
    by (simp add: filter_map comp_def)
  ultimately show ?thesis by simp
qed

subsection \<open>The small site, run\<close>

lemmas recipe_eval = extract_recipe_details_def recipe_details_def get_cooking_stages_def

lemma eval_recipe_1:
  "extract_recipe_details site_ex scraper_ex (ascii ''k.ge/1'') (ascii ''Soups'') (ascii ''k.ge/s'') =
     Inr (Some (record_ex (ascii ''k.ge/1'') [ascii ''salt''] (Some stages_ex) one_ulupa))"
  by (simp add: recipe_eval page_full_def text_eval soup_eval site_eval)

lemma eval_recipe_2:
  "extract_recipe_details site_ex scraper_ex (ascii ''k.ge/2'') (ascii ''Soups'') (ascii ''k.ge/s'') =
     Inr None"
  by (simp add: recipe_eval page_no_title_def text_eval soup_eval site_eval)

lemma eval_recipe_3:
  "extract_recipe_details site_ex scraper_ex (ascii ''k.ge/3'') (ascii ''Soups'') (ascii ''k.ge/s'') =
     Inr (Some (record_ex (ascii ''k.ge/3'') [] (Some stages_ex) ([50, 32] @ ulupa)))"
  by (simp add: recipe_eval page_plain_def text_eval soup_eval site_eval)

lemma eval_recipe_5:
  "extract_recipe_details site_ex scraper_ex (ascii ''k.ge/5'') (ascii ''Soups'') (ascii ''k.ge/s'') =
     Inl IndexError"
  by (simp add: recipe_eval page_one_portion_def text_eval soup_eval site_eval)

lemma eval_initialize: "initialize_main_category site_ex (Scraper_init config_ex) = Inr scraper_ex"
  by (simp add: initialize_main_category_def get_categories_def page_index_def
      text_eval soup_eval site_eval)

lemma eval_sub_categories:
  "get_categories site_ex scraper_ex (ascii ''k.ge/m'') =
     Inr [\<lparr>Category.name = ascii ''Soups'', Category.url = ascii ''k.ge/s''\<rparr>]"
  by (simp add: get_categories_def page_main_def text_eval soup_eval site_eval)

lemma eval_listing:
  "extract_recipe_urls site_ex scraper_ex
     \<lparr>Category.name = ascii ''Soups'', Category.url = ascii ''k.ge/s''\<rparr> = Inr [soups_ex]"
  by (simp add: extract_recipe_urls_def page_listing_def text_eval soup_eval site_eval)

lemma eval_scrape: "scrape_recipe site_ex scraper_ex [soups_ex] = Inr results_ex"
  using eval_recipe_1 eval_recipe_2 eval_recipe_3
  by (simp add: scrape_recipe_def soups_ex_def results_ex_def)

lemma eval_main: "main site_ex config_ex = Inr (Some results_ex)"
  using eval_initialize eval_sub_categories eval_listing eval_scrape
  by (simp add: main_def get_all_recipes_urls_def scraper_ex_def ascii_def)

lemma eval_flattened:
  "flattened_pairs [soups_ex] =
     [(soups_ex, ascii ''k.ge/1''), (soups_ex, ascii ''k.ge/2''), (soups_ex, ascii ''k.ge/3'')]"
  by (simp add: flattened_pairs_def soups_ex_def)

text \<open>
  C9. The fan-out returns exactly when every submitted task returns, and then the result
  sequence has one entry for each flattened (sub-category, recipe URL) pair, the i-th
  entry being the outcome of the task for the i-th pair.
\<close>

theorem scrape_recipe_submission_order:
  "scrape_recipe session self data = Inr results \<longleftrightarrow>
     length results = length (flattened_pairs data) \<and>
     (\<forall>i<length (flattened_pairs data).
        task_of session self (flattened_pairs data ! i) = Inr (results ! i))"
  unfolding scrape_recipe_iff by (auto simp: list_eq_iff_nth_eq)

theorem scrape_recipe_submission_order_witness:
  "scrape_recipe site_ex scraper_ex [soups_ex] = Inr results_ex \<and>
   length results_ex = length (flattened_pairs [soups_ex]) \<and>
   task_of site_ex scraper_ex (soups_ex, ascii ''k.ge/1'') = Inr (results_ex ! 0) \<and>
   task_of site_ex scraper_ex (soups_ex, ascii ''k.ge/2'') = Inr (results_ex ! 1) \<and>
   task_of site_ex scraper_ex (soups_ex, ascii ''k.ge/3'') = Inr (results_ex ! 2)"
proof -
  have h: "scrape_recipe site_ex scraper_ex [soups_ex] = Inr results_ex"
    by (rule eval_scrape)
  have len: "length results_ex = length (flattened_pairs [soups_ex])"
    and nth: "\<forall>i<length (flattened_pairs [soups_ex]).
        task_of site_ex scraper_ex (flattened_pairs [soups_ex] ! i) = Inr (results_ex ! i)"
    using scrape_recipe_submission_order [of site_ex scraper_ex "[soups_ex]" results_ex] h
    by simp_all
  have lt: "0 < length (flattened_pairs [soups_ex])" "1 < length (flattened_pairs [soups_ex])"
    "2 < length (flattened_pairs [soups_ex])"
    by (simp_all add: eval_flattened)
  have "task_of site_ex scraper_ex (flattened_pairs [soups_ex] ! 0) = Inr (results_ex ! 0)"
    "task_of site_ex scraper_ex (flattened_pairs [soups_ex] ! 1) = Inr (results_ex ! 1)"
    "task_of site_ex scraper_ex (flattened_pairs [soups_ex] ! 2) = Inr (results_ex ! 2)"
    using nth [rule_format, OF lt(1)] nth [rule_format, OF lt(2)] nth [rule_format, OF lt(3)]
    by blast+
  then show ?thesis using h len by (simp add: eval_flattened)
qed

text \<open>
  Whenever the run reaches persistence, the sequence handed over is the result of the
  fan-out as it is, in submission order: one entry for each flattened pair, the i-th
  being the outcome of the i-th pair's extraction, absent where that returned absent.
  Nothing is taken out on the way.
\<close>

lemma main_results_unfiltered:
  assumes "main session configuration = Inr (Some results)"
  shows "\<exists>scraper main_url sub_categories.
      initialize_main_category session (Scraper_init configuration) = Inr scraper \<and>
      Scraper.main_category_url scraper = Some main_url \<and>
      get_categories session scraper main_url = Inr sub_categories \<and>
      length results =
        length (flattened_pairs (concat (get_all_recipes_urls session scraper sub_categories))) \<and>
      (\<forall>i<length results.
         task_of session scraper
           (flattened_pairs (concat (get_all_recipes_urls session scraper sub_categories)) ! i) =
         Inr (results ! i)) \<and>
      length (filter (\<lambda>r. r = None) results) =
        length (filter (\<lambda>p. task_of session scraper p = Inr None)
          (flattened_pairs (concat (get_all_recipes_urls session scraper sub_categories))))"
proof -
  from assms obtain scraper main_url sub_categories where
    i: "initialize_main_category session (Scraper_init configuration) = Inr scraper"
    and u: "Scraper.main_category_url scraper = Some main_url"
    and g: "get_categories session scraper main_url = Inr sub_categories"
    and s: "scrape_recipe session scraper
              (concat (get_all_recipes_urls session scraper sub_categories)) = Inr results"
    by (auto simp: main_def split: sum.splits option.splits if_splits)
  let ?pairs = "flattened_pairs (concat (get_all_recipes_urls session scraper sub_categories))"
  have m: "map (task_of session scraper) ?pairs = map Inr results"
    using s by (simp add: scrape_recipe_iff)
  then have l: "length ?pairs = length results"
    by (metis length_map)
  have n: "\<forall>i<length results. task_of session scraper (?pairs ! i) = Inr (results ! i)"
  proof (intro allI impI)
    fix i
    assume a: "i < length results"
    then have "map (task_of session scraper) ?pairs ! i = map Inr results ! i"
      using m by simp
    then show "task_of session scraper (?pairs ! i) = Inr (results ! i)"
      using a l by simp
  qed
  from scrape_recipe_counts [OF s] n i u g show ?thesis by blast
qed

text \<open>
  C4, on a run where it fails. On the small site the second of the three recipe pages
  has no title container: its extraction returns absent and the other two return records.
  The specification requires the two records alone; the sequence that \<open>main\<close> prints
  and hands to persistence has three entries, with \<open>None\<close> in the middle.
\<close>

theorem main_hands_absent_entry_to_persistence:
  "extract_recipe_details site_ex scraper_ex (ascii ''k.ge/2'') (ascii ''Soups'') (ascii ''k.ge/s'') =
     Inr None \<and>
   main site_ex config_ex =
     Inr (Some [Some (record_ex (ascii ''k.ge/1'') [ascii ''salt''] (Some stages_ex) one_ulupa),
                None,
                Some (record_ex (ascii ''k.ge/3'') [] (Some stages_ex) ([50, 32] @ ulupa))]) \<and>
   length results_ex = 3 \<and> results_ex ! 1 = None"
  using eval_recipe_2 eval_main by (simp add: results_ex_def)

section \<open>Recipe pages\<close>

text \<open>Inside \<open>get_cooking_stages\<close> only \<open>AttributeError\<close> arises, so it always returns.\<close>

lemma stages_loop_error: "stages_loop cfg items stages = Inl e \<Longrightarrow> e = AttributeError"
  by (induction items arbitrary: stages) (auto split: option.splits)

lemma get_cooking_stages_returns: "\<exists>r. get_cooking_stages soup cfg = Inr r"
  by (auto simp: get_cooking_stages_def except_AttributeError_def split: sum.splits
      dest: stages_loop_error)

text \<open>With the required structure present the \<^verbatim>\<open>try\<close> block builds a record.\<close>

lemma recipe_details_present:
  assumes "required_present self soup"
  shows "\<exists>r. recipe_details self soup recipe_url sub_name sub_url = Inr r"
proof -
  obtain st where "get_cooking_stages soup (Scraper.config self) = Inr st"
    using get_cooking_stages_returns by blast
  then show ?thesis
    using assms
    by (auto simp: recipe_details_def required_present_def has_attr_def getindex_def Let_def
        split: option.splits sum.splits)
qed

text \<open>What a record built by the \<^verbatim>\<open>try\<close> block holds.\<close>

lemma recipe_details_InrD:
  assumes "recipe_details self soup recipe_url sub_name sub_url = Inr r"
  shows "required_present self soup"
    and "RecipeRecord.ingredients r =
           map (\<lambda>d. clean_text (get_text d))
             (find_all soup (ascii ''div'')
                (Some (recipe_page_classes.ingredients
                         (config.recipe_page_classes (Scraper.config self)))))"
    and "RecipeRecord.portion r =
           (if strip (get_text (find_all soup (ascii ''div'')
                 (Some (recipe_page_classes.portion
                          (config.recipe_page_classes (Scraper.config self)))) ! 1)) = ulupa
            then one_ulupa
            else strip (get_text (find_all soup (ascii ''div'')
                 (Some (recipe_page_classes.portion
                          (config.recipe_page_classes (Scraper.config self)))) ! 1)))"
    and "get_cooking_stages soup (Scraper.config self) = Inr (RecipeRecord.cooking_stages r)"
  using assms
  by (auto simp: recipe_details_def required_present_def has_attr_def getindex_def Let_def
      split: option.splits sum.splits if_splits)

lemma extract_recipe_details_Some_iff:
  assumes "session recipe_url = Some soup"
  shows "extract_recipe_details session self recipe_url sub_name sub_url = Inr (Some r) \<longleftrightarrow>
         recipe_details self soup recipe_url sub_name sub_url = Inr r"
  using assms
  by (auto simp: extract_recipe_details_def get_soup_def except_AttributeError_def
      split: sum.splits if_splits)

text \<open>
  A fetched page gives a record exactly when the elements read unconditionally are all
  there; the cooking-stage containers play no part in it.
\<close>

lemma extract_recipe_details_record_iff:
  assumes "session recipe_url = Some soup"
  shows "(\<exists>r. extract_recipe_details session self recipe_url sub_name sub_url = Inr (Some r)) \<longleftrightarrow>
         required_present self soup"
  using assms recipe_details_present [of self soup recipe_url sub_name sub_url]
    recipe_details_InrD(1) [of self soup recipe_url sub_name sub_url]
  by (auto simp: extract_recipe_details_Some_iff)



text \<open>
  C10. For every fetched detail page with the required structure present and no element
  matching the ingredients selector, \<open>extract_recipe_details\<close> returns a record, and
  its ingredients are the empty sequence. (Whatever the cooking-stage containers hold.)
\<close>

theorem no_ingredients_still_record:
  assumes "session recipe_url = Some soup"
    and "required_present self soup"
    and "find_all soup (ascii ''div'')
           (Some (recipe_page_classes.ingredients
                    (config.recipe_page_classes (Scraper.config self)))) = []"
  shows "\<exists>r. extract_recipe_details session self recipe_url sub_name sub_url = Inr (Some r) \<and>
              RecipeRecord.ingredients r = []"
proof -
  obtain r where r: "recipe_details self soup recipe_url sub_name sub_url = Inr r"
    using recipe_details_present [OF assms(2)] by blast
  have "RecipeRecord.ingredients r = []"
    using recipe_details_InrD(2) [OF r] assms(3) by simp
  moreover have "extract_recipe_details session self recipe_url sub_name sub_url = Inr (Some r)"
    using assms(1) r by (simp add: extract_recipe_details_Some_iff)
  ultimately show ?thesis by blast
qed

theorem no_ingredients_still_record_witness:
  "site_ex (ascii ''k.ge/3'') = Some page_plain \<and>
   required_present scraper_ex page_plain \<and>
   find_all page_plain (ascii ''div'') (Some (ascii ''in'')) = [] \<and>
   (\<exists>r. extract_recipe_details site_ex scraper_ex (ascii ''k.ge/3'') (ascii ''Soups'')
           (ascii ''k.ge/s'') = Inr (Some r) \<and>
         RecipeRecord.ingredients r = [])"
proof -
  have i: "recipe_page_classes.ingredients (config.recipe_page_classes (Scraper.config scraper_ex)) =
      ascii ''in''"
    by (simp add: site_eval)
  have h1: "site_ex (ascii ''k.ge/3'') = Some page_plain"
    by (simp add: site_eval ascii_def)
  have h2: "required_present scraper_ex page_plain"
    by (simp add: required_present_def page_plain_def text_eval soup_eval site_eval)
  have h3: "find_all page_plain (ascii ''div'') (Some (ascii ''in'')) = []"
    by (simp add: page_plain_def text_eval soup_eval site_eval)
  show ?thesis
    using h1 h2 h3 no_ingredients_still_record
      [where session = site_ex and self = scraper_ex and soup = page_plain
         and sub_name = "ascii ''Soups''" and sub_url = "ascii ''k.ge/s''",
       OF h1 h2 h3 [folded i]]
    by simp
qed

text \<open>
  C1, on a page where it fails. The page at \<^verbatim>\<open>k.ge/4\<close> has every container, but
  its stage container has no \<^verbatim>\<open>p\<close> element. \<open>get_cooking_stages\<close> handles the
  \<open>AttributeError\<close> itself and returns \<open>None\<close>, so the method returns a record
  whose cooking stages are \<open>None\<close> where the specification requires absent.
\<close>

theorem stage_without_p_gives_record_without_stages:
  "extract_recipe_details site_ex scraper_ex (ascii ''k.ge/4'') (ascii ''Soups'') (ascii ''k.ge/s'') =
     Inr (Some (record_ex (ascii ''k.ge/4'') [ascii ''salt''] None one_ulupa)) \<and>
   RecipeRecord.cooking_stages (record_ex (ascii ''k.ge/4'') [ascii ''salt''] None one_ulupa) = None"
  by (simp add: recipe_eval page_stage_without_p_def text_eval soup_eval site_eval)

text \<open>
  C2, on pages where it fails. A page with one portion element makes the method raise
  \<open>IndexError\<close>, and an image container without an \<^verbatim>\<open>img\<close> tag makes it raise
  \<open>TypeError\<close>: the handler catches \<open>AttributeError\<close> only. The exception then
  leaves the fan-out as well.
\<close>

theorem extract_recipe_details_raises:
  "extract_recipe_details site_ex scraper_ex (ascii ''k.ge/5'') (ascii ''Soups'') (ascii ''k.ge/s'') =
     Inl IndexError \<and>
   extract_recipe_details site_ex scraper_ex (ascii ''k.ge/6'') (ascii ''Soups'') (ascii ''k.ge/s'') =
     Inl TypeError \<and>
   scrape_recipe site_ex scraper_ex
     [\<lparr>SubCategory.sub_category_name = ascii ''Soups'',
       SubCategory.sub_category_url = ascii ''k.ge/s'',
       SubCategory.recipe_urls = [ascii ''k.ge/1'', ascii ''k.ge/5'']\<rparr>] = Inl IndexError"
proof (intro conjI)
  show "extract_recipe_details site_ex scraper_ex (ascii ''k.ge/5'') (ascii ''Soups'')
      (ascii ''k.ge/s'') = Inl IndexError"
    by (rule eval_recipe_5)
  show "extract_recipe_details site_ex scraper_ex (ascii ''k.ge/6'') (ascii ''Soups'')
      (ascii ''k.ge/s'') = Inl TypeError"
    by (simp add: recipe_eval page_no_img_def text_eval soup_eval site_eval)
  show "scrape_recipe site_ex scraper_ex
     [\<lparr>SubCategory.sub_category_name = ascii ''Soups'',
       SubCategory.sub_category_url = ascii ''k.ge/s'',
       SubCategory.recipe_urls = [ascii ''k.ge/1'', ascii ''k.ge/5'']\<rparr>] = Inl IndexError"
    using eval_recipe_1 eval_recipe_5 by (simp add: scrape_recipe_def)
qed


section \<open>Listing the categories\<close>

text \<open>
  When every anchor is valid the comprehension of \<open>get_categories\<close> returns one
  category for each anchor, in order.
\<close>

lemma categories_of_valid:
  assumes "list_all (valid_category_anchor self) anchors"
  shows "\<exists>categories. categories_of self anchors = Inr categories \<and>
     length categories = length anchors \<and>
     (\<forall>i<length anchors. \<exists>d href.
        find_tag (anchors ! i) (ascii ''div'')
          (Some (category_classes.category_text
                   (config.category_classes (Scraper.config self)))) = Some d \<and>
        getitem (anchors ! i) (ascii ''href'') = Inr href \<and>
        categories ! i =
          \<lparr>Category.name = get_text_strip d, Category.url = Scraper.base_url self @ href\<rparr>)"
  using assms
proof (induction anchors)
  case Nil
  then show ?case by simp
next
  case (Cons a anchors)
  let ?ct = "Some (category_classes.category_text (config.category_classes (Scraper.config self)))"
  from Cons.prems obtain d href where
    d: "find_tag a (ascii ''div'') ?ct = Some d" and h: "getitem a (ascii ''href'') = Inr href"
    by (auto simp: valid_category_anchor_def has_attr_def split: sum.splits)
  from Cons obtain categories where
    c: "categories_of self anchors = Inr categories"
    and l: "length categories = length anchors"
    and n: "\<forall>i<length anchors. \<exists>d href.
        find_tag (anchors ! i) (ascii ''div'') ?ct = Some d \<and>
        getitem (anchors ! i) (ascii ''href'') = Inr href \<and>
        categories ! i =
          \<lparr>Category.name = get_text_strip d, Category.url = Scraper.base_url self @ href\<rparr>"
    by auto
  let ?c = "\<lparr>Category.name = get_text_strip d, Category.url = Scraper.base_url self @ href\<rparr>"
  have "categories_of self (a # anchors) = Inr (?c # categories)"
    using d h c by simp
  moreover have "length (?c # categories) = length (a # anchors)"
    using l by simp
  moreover have "\<forall>i<length (a # anchors). \<exists>d href.
        find_tag ((a # anchors) ! i) (ascii ''div'') ?ct = Some d \<and>
        getitem ((a # anchors) ! i) (ascii ''href'') = Inr href \<and>
        (?c # categories) ! i =
          \<lparr>Category.name = get_text_strip d, Category.url = Scraper.base_url self @ href\<rparr>"
  proof (intro allI impI)
    fix i
    assume "i < length (a # anchors)"
    then show "\<exists>d href.
        find_tag ((a # anchors) ! i) (ascii ''div'') ?ct = Some d \<and>
        getitem ((a # anchors) ! i) (ascii ''href'') = Inr href \<and>
        (?c # categories) ! i =
          \<lparr>Category.name = get_text_strip d, Category.url = Scraper.base_url self @ href\<rparr>"
      using d h n by (cases i) auto
  qed
  ultimately show ?case by blast
qed

text \<open>
  C8. When the fetch of the index page fails \<open>get_categories\<close> returns the empty
  sequence. When the page has the categories container and each of its N category anchors
  is valid, it returns N categories in document order: the i-th has the stripped text of
  the i-th anchor's text container as its name and the base URL followed by the anchor's
  \<^verbatim>\<open>href\<close> as its URL.
\<close>

theorem get_categories_valid_anchors:
  "(session u = None \<longrightarrow> get_categories session self u = Inr []) \<and>
   (\<forall>soup categories_div.
      session u = Some soup \<and>
      find_tag soup (ascii ''div'')
        (Some (category_classes.main_category
                 (config.category_classes (Scraper.config self)))) = Some categories_div \<and>
      list_all (valid_category_anchor self)
        (find_all categories_div (ascii ''a'')
           (Some (category_classes.category_item
                    (config.category_classes (Scraper.config self))))) \<longrightarrow>
      (\<exists>categories.
         get_categories session self u = Inr categories \<and>
         length categories =
           length (find_all categories_div (ascii ''a'')
                     (Some (category_classes.category_item
                              (config.category_classes (Scraper.config self))))) \<and>
         (\<forall>i<length (find_all categories_div (ascii ''a'')
                       (Some (category_classes.category_item
                                (config.category_classes (Scraper.config self))))).
            \<exists>d href.
              find_tag
                (find_all categories_div (ascii ''a'')
                   (Some (category_classes.category_item
                            (config.category_classes (Scraper.config self)))) ! i)
                (ascii ''div'')
                (Some (category_classes.category_text
                         (config.category_classes (Scraper.config self)))) = Some d \<and>
              getitem
                (find_all categories_div (ascii ''a'')
                   (Some (category_classes.category_item
                            (config.category_classes (Scraper.config self)))) ! i)
                (ascii ''href'') = Inr href \<and>
              categories ! i =
                \<lparr>Category.name = get_text_strip d,
                 Category.url = Scraper.base_url self @ href\<rparr>)))"
proof (intro conjI impI allI)
  assume "session u = None"
  then show "get_categories session self u = Inr []"
    by (simp add: get_categories_def get_soup_def)
next
  fix soup categories_div
  let ?anchors = "find_all categories_div (ascii ''a'')
      (Some (category_classes.category_item (config.category_classes (Scraper.config self))))"
  assume a: "session u = Some soup \<and>
      find_tag soup (ascii ''div'')
        (Some (category_classes.main_category
                 (config.category_classes (Scraper.config self)))) = Some categories_div \<and>
      list_all (valid_category_anchor self) ?anchors"
  then obtain categories where
    c: "categories_of self ?anchors = Inr categories"
    and rest: "length categories = length ?anchors \<and>
     (\<forall>i<length ?anchors. \<exists>d href.
        find_tag (?anchors ! i) (ascii ''div'')
          (Some (category_classes.category_text
                   (config.category_classes (Scraper.config self)))) = Some d \<and>
        getitem (?anchors ! i) (ascii ''href'') = Inr href \<and>
        categories ! i =
          \<lparr>Category.name = get_text_strip d, Category.url = Scraper.base_url self @ href\<rparr>)"
    using categories_of_valid [of self ?anchors] by blast
  have "get_categories session self u = Inr categories"
    using a c by (simp add: get_categories_def get_soup_def except_AttributeError_def)
  then show "\<exists>categories.
         get_categories session self u = Inr categories \<and>
         length categories = length ?anchors \<and>
         (\<forall>i<length ?anchors. \<exists>d href.
              find_tag (?anchors ! i) (ascii ''div'')
                (Some (category_classes.category_text
                         (config.category_classes (Scraper.config self)))) = Some d \<and>
              getitem (?anchors ! i) (ascii ''href'') = Inr href \<and>
              categories ! i =
                \<lparr>Category.name = get_text_strip d,
                 Category.url = Scraper.base_url self @ href\<rparr>)"
    using rest by blast
qed

theorem get_categories_valid_anchors_witness:
  "site_ex (ascii ''k.ge/down'') = None \<and>
   get_categories site_ex scraper_ex (ascii ''k.ge/down'') = Inr [] \<and>
   site_ex (ascii ''k.ge/c'') = Some page_index \<and>
   find_tag page_index (ascii ''div'') (Some (ascii ''cats'')) =
     Some (el ''div'' ''cats'' [link ''item'' ''/m'' [el ''div'' ''t'' [text_node ''Main'']]]) \<and>
   find_all (el ''div'' ''cats'' [link ''item'' ''/m'' [el ''div'' ''t'' [text_node ''Main'']]])
     (ascii ''a'') (Some (ascii ''item'')) =
     [link ''item'' ''/m'' [el ''div'' ''t'' [text_node ''Main'']]] \<and>
   list_all (valid_category_anchor scraper_ex)
     [link ''item'' ''/m'' [el ''div'' ''t'' [text_node ''Main'']]] \<and>
   (\<exists>categories.
      get_categories site_ex scraper_ex (ascii ''k.ge/c'') = Inr categories \<and>
      length categories = 1 \<and>
      categories ! 0 = \<lparr>Category.name = ascii ''Main'', Category.url = ascii ''k.ge/m''\<rparr>)"
proof -
  let ?a = "link ''item'' ''/m'' [el ''div'' ''t'' [text_node ''Main'']]"
  let ?d = "el ''div'' ''cats'' [?a]"
  have mc: "category_classes.main_category (config.category_classes (Scraper.config scraper_ex)) =
      ascii ''cats''"
    and it: "category_classes.category_item (config.category_classes (Scraper.config scraper_ex)) =
      ascii ''item''"
    and ct: "category_classes.category_text (config.category_classes (Scraper.config scraper_ex)) =
      ascii ''t''"
    and bu: "Scraper.base_url scraper_ex = ascii ''k.ge''"
    by (simp_all add: site_eval)
  have f: "site_ex (ascii ''k.ge/down'') = None"
    by (simp add: site_eval ascii_def)
  have h1: "site_ex (ascii ''k.ge/c'') = Some page_index"
    by (simp add: site_eval ascii_def)
  have h2: "find_tag page_index (ascii ''div'') (Some (ascii ''cats'')) = Some ?d"
    by (simp add: page_index_def text_eval soup_eval site_eval)
  have h3: "find_all ?d (ascii ''a'') (Some (ascii ''item'')) = [?a]"
    by (simp add: text_eval soup_eval site_eval)
  have h4: "list_all (valid_category_anchor scraper_ex) [?a]"
    by (simp add: valid_category_anchor_def text_eval soup_eval site_eval)
  have td: "find_tag ?a (ascii ''div'') (Some (ascii ''t'')) = Some (el ''div'' ''t'' [text_node ''Main''])"
    and hr: "getitem ?a (ascii ''href'') = Inr (ascii ''/m'')"
    and gt: "get_text_strip (el ''div'' ''t'' [text_node ''Main'']) = ascii ''Main''"
    by (simp_all add: text_eval soup_eval site_eval)
  have e: "get_categories site_ex scraper_ex (ascii ''k.ge/down'') = Inr []"
    using get_categories_valid_anchors
      [where session = site_ex and self = scraper_ex and u = "ascii ''k.ge/down''"] f
    by blast
  have "\<exists>categories.
      get_categories site_ex scraper_ex (ascii ''k.ge/c'') = Inr categories \<and>
      length categories = length [?a] \<and>
      (\<forall>i<length [?a]. \<exists>d href.
         find_tag ([?a] ! i) (ascii ''div'') (Some (ascii ''t'')) = Some d \<and>
         getitem ([?a] ! i) (ascii ''href'') = Inr href \<and>
         categories ! i = \<lparr>Category.name = get_text_strip d, Category.url = ascii ''k.ge'' @ href\<rparr>)"
    using get_categories_valid_anchors
      [where session = site_ex and self = scraper_ex and u = "ascii ''k.ge/c''",
       THEN conjunct2, rule_format, of page_index ?d] h1 h2 h3 h4
    by (simp add: mc it ct bu)
  then obtain categories where
    g: "get_categories site_ex scraper_ex (ascii ''k.ge/c'') = Inr categories"
    and l: "length categories = 1"
    and n: "\<exists>d href.
         find_tag ?a (ascii ''div'') (Some (ascii ''t'')) = Some d \<and>
         getitem ?a (ascii ''href'') = Inr href \<and>
         categories ! 0 = \<lparr>Category.name = get_text_strip d, Category.url = ascii ''k.ge'' @ href\<rparr>"
    by auto
  from n have "categories ! 0 = \<lparr>Category.name = ascii ''Main'', Category.url = ascii ''k.ge/m''\<rparr>"
    by (auto simp: td hr gt) (simp add: ascii_def)
  then show ?thesis using f e h1 h2 h3 h4 g l by blast
qed


end
